theory Spec2Isabelle
  imports Main "HOL-Library.Word"
begin

section \<open>JavaScript values used by the two source files\<close>

text \<open>
  A JavaScript string is a sequence of UTF-16 code units. Both \<open>String.prototype.trim\<close>
  (its white space set reaches beyond Latin-1) and \<open>charCodeAt\<close> (a value below 65536,
  reduced modulo 360 by the source) depend on that, so strings are lists of 16-bit words.
  \<open>lit\<close> embeds an ASCII literal of the source.
\<close>

type_synonym jsstring = "16 word list"

definition lit :: "string \<Rightarrow> jsstring" where
  "lit s = map (\<lambda>c. of_nat (of_char c)) s"

text \<open>
  The code units that \<open>trim\<close> strips: ECMAScript's WhiteSpace (TAB, VT, FF, SP, NBSP,
  ZWNBSP and the other space separators U+1680, U+2000..U+200A, U+202F, U+205F, U+3000)
  and LineTerminator (LF, CR, LS, PS).
\<close>

definition isWhiteSpace :: "16 word \<Rightarrow> bool" where
  "isWhiteSpace c =
     (let n = unat c in
      n = 0x0009 \<or> n = 0x000A \<or> n = 0x000B \<or> n = 0x000C \<or> n = 0x000D \<or> n = 0x0020 \<or>
      n = 0x00A0 \<or> n = 0x1680 \<or> (0x2000 \<le> n \<and> n \<le> 0x200A) \<or> n = 0x2028 \<or> n = 0x2029 \<or>
      n = 0x202F \<or> n = 0x205F \<or> n = 0x3000 \<or> n = 0xFEFF)"

definition trimStart :: "jsstring \<Rightarrow> jsstring" where
  "trimStart s = dropWhile isWhiteSpace s"

definition trimEnd :: "jsstring \<Rightarrow> jsstring" where
  "trimEnd s = rev (dropWhile isWhiteSpace (rev s))"

definition trim :: "jsstring \<Rightarrow> jsstring" where
  "trim s = trimEnd (trimStart s)"

text \<open>
  A JavaScript number, as far as the sources need it: \<open>charCodeAt\<close> yields a code unit or
  \<open>NaN\<close> (index out of range), and \<open>NaN % 360\<close> is \<open>NaN\<close>.
\<close>

datatype jsnumber = NaN | Fin nat

definition charCodeAt :: "jsstring \<Rightarrow> nat \<Rightarrow> jsnumber" where
  "charCodeAt s i = (if i < length s then Fin (unat (s ! i)) else NaN)"

definition remainder :: "jsnumber \<Rightarrow> nat \<Rightarrow> jsnumber" where
  "remainder x m = (case x of NaN \<Rightarrow> NaN | Fin n \<Rightarrow> Fin (n mod m))"

text \<open>Decimal rendering of a non-negative integer, as a template literal does it.\<close>

definition digit :: "nat \<Rightarrow> 16 word" where
  "digit d = of_nat (48 + d)"

fun decimal :: "nat \<Rightarrow> jsstring" where
  "decimal n = (if n < 10 then [digit n] else decimal (n div 10) @ [digit (n mod 10)])"

declare decimal.simps [simp del]

definition toString :: "jsnumber \<Rightarrow> jsstring" where
  "toString x = (case x of NaN \<Rightarrow> lit ''NaN'' | Fin n \<Rightarrow> decimal n)"

section \<open>apm/pages/home/utils.ts\<close>

text \<open>
  \<^verbatim>\<open>
  export const charColor = (str: string) => {
    const h = str.charCodeAt(0) % 360;
    const s = '50%';
    const l = '50%';
    const color = `hsl(${h}, ${s}, ${l})`;
    return color;
  };
  \<close>
\<close>

definition charColor :: "jsstring \<Rightarrow> jsstring" where
  "charColor str =
     (let h = remainder (charCodeAt str 0) 360;
          s = lit ''50%'';
          l = lit ''50%'';
          color = lit ''hsl('' @ toString h @ lit '', '' @ s @ lit '', '' @ l @ lit '')''
      in color)"

section \<open>trace/plugins/charts/profiling-graph/profiling-graph.tsx\<close>

subsection \<open>The derived filter keywords\<close>

text \<open>
  \<^verbatim>\<open>
  const flameFilterKeywords = computed(() =>
    (filterKeyword.value?.trim?.().length ? [filterKeyword.value] : []));
  \<close>
  \<open>filterKeyword\<close> is a \<open>Ref<string>\<close>, so the optional chaining never short-circuits;
  the length of the trimmed keyword is truthy exactly when it is not zero.
\<close>

definition flameFilterKeywords :: "jsstring \<Rightarrow> jsstring list" where
  "flameFilterKeywords filterKeyword =
     (if length (trim filterKeyword) \<noteq> 0 then [filterKeyword] else [])"

subsection \<open>Request parameters\<close>

text \<open>
  A parameter object is a JavaScript object: a finite map from property names to values.
  Object spread \<^verbatim>\<open>{...a, ...b, k: v}\<close> copies the properties of \<open>a\<close>, then those of \<open>b\<close>
  over them, then sets \<open>k\<close>: map override \<open>a ++ b\<close> followed by an update.
\<close>

datatype jsvalue = Undefined | Bool bool | Num int | Str jsstring | Arr "jsvalue list"

type_synonym jsobject = "jsstring \<rightharpoonup> jsvalue"

text \<open>
  What the component reads from outside: the \<open>queryParams\<close> prop and the injected
  \<open>toolsFormData.value.timeRange\<close>. \<open>handleTransformToTimestamp\<close> is not part of the
  sources at hand; \<open>timeRange\<close> holds its result, the pair \<open>[start, end]\<close> in seconds.
\<close>

record props =
  queryParams :: jsobject
  timeRange :: "int \<times> int"

text \<open>
  \<^verbatim>\<open>
  const getParams = (args: Record<string, any> = {}) => {
    const { queryParams } = props;
    const [start, end] = handleTransformToTimestamp(toolsFormData.value.timeRange);
    return {
      ...args,
      ...queryParams,
      start: start * Math.pow(10, 6),
      end: end * Math.pow(10, 6),
      // TODO
      app_name: 'profiling_bar',
      service_name: 'fuxi_gin'
    };
  };
  \<close>
\<close>

definition getParams :: "props \<Rightarrow> jsobject \<Rightarrow> jsobject" where
  "getParams p args =
     (let (start, end_t) = timeRange p in
      (args ++ queryParams p)
        (lit ''start'' \<mapsto> Num (start * 10 ^ 6),
         lit ''end'' \<mapsto> Num (end_t * 10 ^ 6),
         lit ''app_name'' \<mapsto> Str (lit ''profiling_bar''),
         lit ''service_name'' \<mapsto> Str (lit ''fuxi_gin'')))"

subsection \<open>Component state\<close>

datatype ViewModeType = Combine | Table | Flame | Topo

datatype DirectionType = Ltr | Rtl

datatype BaseDataType =
  BaseDataType (node_name: jsstring) (node_children: "BaseDataType list option") (node_id: jsstring)

text \<open>
  The refs the component creates when it is mounted, with their initial values below.
  Table rows are opaque to the component (type \<open>'r\<close>).
  \<open>flameData\<close> is assigned \<open>data.diagrams.flame_data\<close> unguarded, so it can hold
  \<open>undefined\<close> (\<open>None\<close>).
\<close>

record 'r state =
  empty_flag :: bool
  activeMode :: ViewModeType
  textDirection :: DirectionType
  isLoading :: bool
  tableData :: "'r list"
  flameData :: "BaseDataType option"
  unit :: jsstring
  highlightId :: int
  filterKeyword :: jsstring
  topoSrc :: jsstring

definition initialState :: "'r state" where
  "initialState =
     \<lparr> empty_flag = True,
       activeMode = Combine,
       textDirection = Ltr,
       isLoading = False,
       tableData = [],
       flameData = Some (BaseDataType (lit []) None (lit [])),
       unit = lit [],
       highlightId = - 1,
       filterKeyword = lit [],
       topoSrc = lit [] \<rparr>"

subsection \<open>The backend call\<close>

text \<open>
  The \<open>diagrams\<close> object of a response; every field may be absent.
\<close>

datatype 'r diagrams =
  Diagrams (unit_field: "jsstring option") (table_data: "'r list option")
    (flame_data: "BaseDataType option") (call_graph_data: "jsstring option")

text \<open>
  What a call \<^verbatim>\<open>query(params)\<close> can do: raise at once, return a promise that is
  rejected, or one that resolves to \<open>null\<close>/\<open>undefined\<close>, or to an object whose
  \<open>diagrams\<close> field is absent (\<open>None\<close>) or present.
\<close>

datatype 'r reply = Throws | Rejects | ResolvesNullish | Resolves "'r diagrams option"

text \<open>
  The value of \<^verbatim>\<open>await query(params).catch(() => false)\<close>, or \<open>None\<close> when the call
  raised.
\<close>

datatype 'r data = DFalse | DNullish | DObject "'r diagrams option"

definition awaitQuery :: "'r reply \<Rightarrow> 'r data option" where
  "awaitQuery r =
     (case r of
        Throws \<Rightarrow> None
      | Rejects \<Rightarrow> Some DFalse
      | ResolvesNullish \<Rightarrow> Some DNullish
      | Resolves d \<Rightarrow> Some (DObject d))"

text \<open>
  \<^verbatim>\<open>data.diagrams\<close>: \<open>undefined\<close> on \<open>false\<close> and on an object without the field, a
  TypeError (\<open>None\<close>) on \<open>null\<close>/\<open>undefined\<close>.
\<close>

definition getDiagrams :: "'r data \<Rightarrow> 'r diagrams option option" where
  "getDiagrams d =
     (case d of
        DFalse \<Rightarrow> Some None
      | DNullish \<Rightarrow> None
      | DObject ds \<Rightarrow> Some ds)"

text \<open>\<^verbatim>\<open>x || d\<close> on an optional string or array field.\<close>

definition orElseStr :: "jsstring option \<Rightarrow> jsstring \<Rightarrow> jsstring" where
  "orElseStr x d = (case x of None \<Rightarrow> d | Some s \<Rightarrow> if s = [] then d else s)"

definition orElseArr :: "'a list option \<Rightarrow> 'a list \<Rightarrow> 'a list" where
  "orElseArr x d = (case x of None \<Rightarrow> d | Some xs \<Rightarrow> xs)"

text \<open>
  A handler run, taken as one step: the state it leaves, the parameter objects it passed
  to \<open>query\<close>, and whether an exception escaped it (the async function's promise is
  rejected). Other handlers can run while one is suspended at its \<open>await\<close>; the event
  system further down cuts the handlers at that point.
\<close>

record 'r run =
  post :: "'r state"
  sent :: "jsobject list"
  raised :: bool

subsection \<open>handleQuery\<close>

text \<open>
  \<^verbatim>\<open>
  const handleQuery = async () => {
    try {
      isLoading.value = true;
      highlightId.value = -1;
      const params = getParams({ diagram_types: ['table', 'flamegraph'] });
      const data = await query(params).catch(() => false);
      if (data.diagrams) {
        unit.value = data.diagrams.unit || '';
        tableData.value = data.diagrams.table_data || [];
        flameData.value = data.diagrams.flame_data;
        empty.value = false;
      } else {
        empty.value = true;
      }
      isLoading.value = false;
    } catch (e) {
      console.error(e);
      isLoading.value = false;
      empty.value = true;
    }
  };
  \<close>
  \<open>handleQueryTry\<close> is the \<open>try\<close> block: the state it reached and whether it threw.
\<close>

definition queryArgs :: jsobject where
  "queryArgs = [lit ''diagram_types'' \<mapsto> Arr [Str (lit ''table''), Str (lit ''flamegraph'')]]"

definition handleQueryTry :: "'r reply \<Rightarrow> 'r state \<Rightarrow> 'r state \<times> bool" where
  "handleQueryTry r st =
     (let st1 = st\<lparr>isLoading := True\<rparr>;
          st2 = st1\<lparr>highlightId := - 1\<rparr>
      in case awaitQuery r of
           None \<Rightarrow> (st2, True)
         | Some d \<Rightarrow>
             (case getDiagrams d of
                None \<Rightarrow> (st2, True)
              | Some (Some ds) \<Rightarrow>
                  (let st3 = st2\<lparr>unit := orElseStr (unit_field ds) (lit [])\<rparr>;
                       st4 = st3\<lparr>tableData := orElseArr (table_data ds) []\<rparr>;
                       st5 = st4\<lparr>flameData := flame_data ds\<rparr>;
                       st6 = st5\<lparr>empty_flag := False\<rparr>
                   in (st6\<lparr>isLoading := False\<rparr>, False))
              | Some None \<Rightarrow>
                  (let st3 = st2\<lparr>empty_flag := True\<rparr>
                   in (st3\<lparr>isLoading := False\<rparr>, False))))"

definition handleQuery :: "props \<Rightarrow> 'r reply \<Rightarrow> 'r state \<Rightarrow> 'r run" where
  "handleQuery p r st =
     (let params = getParams p queryArgs;
          (st', threw) = handleQueryTry r st;
          st'' = (if threw then st'\<lparr>isLoading := False, empty_flag := True\<rparr> else st')
      in \<lparr> post = st'', sent = [params], raised = False \<rparr>)"

subsection \<open>handleModeChange\<close>

text \<open>
  \<^verbatim>\<open>
  const handleModeChange = async (val: ViewModeType) => {
    if (val === activeMode.value) return;

    highlightId.value = -1;
    activeMode.value = val;

    if (val === ViewModeType.Topo && !topoSrc.value) {
      isLoading.value = true;

      const params = getParams({ diagram_types: ['callgraph'] });
      const data = await query(params).catch(() => false);
      if (data.diagrams) {
        topoSrc.value = data.diagrams.call_graph_data || '';
      }
      isLoading.value = false;
    }
  };
  \<close>
  There is no \<open>try\<close> here: an exception leaves the handler where it was raised.
\<close>

definition callgraphArgs :: jsobject where
  "callgraphArgs = [lit ''diagram_types'' \<mapsto> Arr [Str (lit ''callgraph'')]]"

definition handleModeChange :: "props \<Rightarrow> ViewModeType \<Rightarrow> 'r reply \<Rightarrow> 'r state \<Rightarrow> 'r run" where
  "handleModeChange p val r st =
     (if val = activeMode st then \<lparr> post = st, sent = [], raised = False \<rparr>
      else
        let st1 = st\<lparr>highlightId := - 1\<rparr>;
            st2 = st1\<lparr>activeMode := val\<rparr>
        in if val = Topo \<and> topoSrc st2 = [] then
             let st3 = st2\<lparr>isLoading := True\<rparr>;
                 params = getParams p callgraphArgs
             in case awaitQuery r of
                  None \<Rightarrow> \<lparr> post = st3, sent = [params], raised = True \<rparr>
                | Some d \<Rightarrow>
                    (case getDiagrams d of
                       None \<Rightarrow> \<lparr> post = st3, sent = [params], raised = True \<rparr>
                     | Some (Some ds) \<Rightarrow>
                         (let st4 = st3\<lparr>topoSrc := orElseStr (call_graph_data ds) (lit [])\<rparr>
                          in \<lparr> post = st4\<lparr>isLoading := False\<rparr>, sent = [params], raised = False \<rparr>)
                     | Some None \<Rightarrow>
                         \<lparr> post = st3\<lparr>isLoading := False\<rparr>, sent = [params], raised = False \<rparr>)
           else \<lparr> post = st2, sent = [], raised = False \<rparr>)"

subsection \<open>handleSortChange and the synchronous handlers\<close>

text \<open>
  \<^verbatim>\<open>
  const handleSortChange = async (sortKey: string) => {
    const params = getParams({
      diagram_types: ['table'],
      sort: sortKey
    });
    const data = await query(params).catch(() => false);
    if (data.diagrams) {
      highlightId.value = -1;
      tableData.value = data.diagrams.table_data || [];
    }
  };
  \<close>
\<close>

definition sortArgs :: "jsstring \<Rightarrow> jsobject" where
  "sortArgs sortKey = [lit ''diagram_types'' \<mapsto> Arr [Str (lit ''table'')], lit ''sort'' \<mapsto> Str sortKey]"

definition handleSortChange :: "props \<Rightarrow> jsstring \<Rightarrow> 'r reply \<Rightarrow> 'r state \<Rightarrow> 'r run" where
  "handleSortChange p sortKey r st =
     (let params = getParams p (sortArgs sortKey)
      in case awaitQuery r of
           None \<Rightarrow> \<lparr> post = st, sent = [params], raised = True \<rparr>
         | Some d \<Rightarrow>
             (case getDiagrams d of
                None \<Rightarrow> \<lparr> post = st, sent = [params], raised = True \<rparr>
              | Some (Some ds) \<Rightarrow>
                  (let st1 = st\<lparr>highlightId := - 1\<rparr>;
                       st2 = st1\<lparr>tableData := orElseArr (table_data ds) []\<rparr>
                   in \<lparr> post = st2, sent = [params], raised = False \<rparr>)
              | Some None \<Rightarrow> \<lparr> post = st, sent = [params], raised = False \<rparr>))"

text \<open>
  \<^verbatim>\<open>
  const handleTextDirectionChange = (val: DirectionType) => { textDirection.value = val; };
  onKeywordChange={val => (this.filterKeyword = val)}
  onUpdateHighlightId={id => (this.highlightId = id)}
  \<close>
\<close>

definition handleTextDirectionChange :: "DirectionType \<Rightarrow> 'r state \<Rightarrow> 'r state" where
  "handleTextDirectionChange val st = st\<lparr>textDirection := val\<rparr>"

definition onKeywordChange :: "jsstring \<Rightarrow> 'r state \<Rightarrow> 'r state" where
  "onKeywordChange val st = st\<lparr>filterKeyword := val\<rparr>"

definition onUpdateHighlightId :: "int \<Rightarrow> 'r state \<Rightarrow> 'r state" where
  "onUpdateHighlightId i st = st\<lparr>highlightId := i\<rparr>"

subsection \<open>The handlers in two phases\<close>

text \<open>
  An async handler runs up to its \<open>await\<close>, is suspended while the request is in flight
  and continues when the promise settles; other handlers run in between (no request is
  ever cancelled). Each handler is therefore given a second time, cut at the \<open>await\<close>:
  the part before the call of \<open>query\<close>, and the part from the outcome of that call on.
  The continuations read no ref, they only assign. The lemmas \<open>handleQuery_phases\<close>,
  \<open>handleModeChange_phases\<close> and \<open>handleSortChange_phases\<close> below show that the two
  parts, run back to back, are the handlers above.
\<close>

definition handleQueryBegin :: "'r state \<Rightarrow> 'r state" where
  "handleQueryBegin st =
     (let st1 = st\<lparr>isLoading := True\<rparr>
      in st1\<lparr>highlightId := - 1\<rparr>)"

definition handleQueryResume :: "'r reply \<Rightarrow> 'r state \<Rightarrow> 'r state" where
  "handleQueryResume r st2 =
     (let (st', threw) =
            (case awaitQuery r of
               None \<Rightarrow> (st2, True)
             | Some d \<Rightarrow>
                 (case getDiagrams d of
                    None \<Rightarrow> (st2, True)
                  | Some (Some ds) \<Rightarrow>
                      (let st3 = st2\<lparr>unit := orElseStr (unit_field ds) (lit [])\<rparr>;
                           st4 = st3\<lparr>tableData := orElseArr (table_data ds) []\<rparr>;
                           st5 = st4\<lparr>flameData := flame_data ds\<rparr>;
                           st6 = st5\<lparr>empty_flag := False\<rparr>
                       in (st6\<lparr>isLoading := False\<rparr>, False))
                  | Some None \<Rightarrow>
                      (let st3 = st2\<lparr>empty_flag := True\<rparr>
                       in (st3\<lparr>isLoading := False\<rparr>, False))))
      in if threw then st'\<lparr>isLoading := False, empty_flag := True\<rparr> else st')"

text \<open>
  The first part of \<open>handleModeChange\<close>: the state it reaches and whether it calls
  \<open>query\<close>. The second part: the state and whether an exception escapes.
\<close>

definition handleModeChangeBegin :: "ViewModeType \<Rightarrow> 'r state \<Rightarrow> 'r state \<times> bool" where
  "handleModeChangeBegin val st =
     (if val = activeMode st then (st, False)
      else
        let st1 = st\<lparr>highlightId := - 1\<rparr>;
            st2 = st1\<lparr>activeMode := val\<rparr>
        in if val = Topo \<and> topoSrc st2 = [] then (st2\<lparr>isLoading := True\<rparr>, True)
           else (st2, False))"

definition handleModeChangeResume :: "'r reply \<Rightarrow> 'r state \<Rightarrow> 'r state \<times> bool" where
  "handleModeChangeResume r st3 =
     (case awaitQuery r of
        None \<Rightarrow> (st3, True)
      | Some d \<Rightarrow>
          (case getDiagrams d of
             None \<Rightarrow> (st3, True)
           | Some (Some ds) \<Rightarrow>
               (let st4 = st3\<lparr>topoSrc := orElseStr (call_graph_data ds) (lit [])\<rparr>
                in (st4\<lparr>isLoading := False\<rparr>, False))
           | Some None \<Rightarrow> (st3\<lparr>isLoading := False\<rparr>, False)))"

text \<open>\<open>handleSortChange\<close> assigns nothing before its \<open>await\<close>.\<close>

definition handleSortChangeResume :: "'r reply \<Rightarrow> 'r state \<Rightarrow> 'r state \<times> bool" where
  "handleSortChangeResume r st =
     (case awaitQuery r of
        None \<Rightarrow> (st, True)
      | Some d \<Rightarrow>
          (case getDiagrams d of
             None \<Rightarrow> (st, True)
           | Some (Some ds) \<Rightarrow>
               (let st1 = st\<lparr>highlightId := - 1\<rparr>;
                    st2 = st1\<lparr>tableData := orElseArr (table_data ds) []\<rparr>
                in (st2, False))
           | Some None \<Rightarrow> (st, False)))"

subsection \<open>The component as an event system\<close>

text \<open>
  A configuration of the mounted component: what it reads from outside, its refs, and the
  handlers suspended at their \<open>await\<close>, in the order in which they called \<open>query\<close>.
\<close>

datatype handler = HQuery | HModeChange | HSortChange

record 'r config =
  props_of :: props
  state_of :: "'r state"
  inflight :: "handler list"

text \<open>How the promise of a request in flight settles.\<close>

datatype 'r settled = Rejected | Nullish | Answered "'r diagrams option"

definition replyOf :: "'r settled \<Rightarrow> 'r reply" where
  "replyOf s =
     (case s of
        Rejected \<Rightarrow> Rejects
      | Nullish \<Rightarrow> ResolvesNullish
      | Answered d \<Rightarrow> Resolves d)"

text \<open>
  Everything that can happen: the parent replaces \<open>queryParams\<close> or the time range (the
  two watchers call \<open>handleQuery\<close>), a child emits one of its events, or the request of a
  suspended handler settles. An event that starts an async handler says whether the call
  of \<open>query\<close> raises at once; if it does not, the handler joins the suspended ones.
  \<open>Settle i s\<close> continues the \<open>i\<close>-th suspended handler, in any order.
\<close>

datatype 'r event =
  QueryParamsChanged jsobject bool
| TimeRangeChanged "int \<times> int" bool
| ModeChange ViewModeType bool
| SortChange jsstring bool
| Settle nat "'r settled"
| TextDirectionChange DirectionType
| KeywordChange jsstring
| UpdateHighlightId int


definition startQuery :: "props \<Rightarrow> bool \<Rightarrow> 'r config \<Rightarrow> 'r config \<times> jsobject list" where
  "startQuery p' throws c =
     (let st2 = handleQueryBegin (state_of c);
          params = getParams p' queryArgs
      in if throws
         then (c\<lparr>props_of := p', state_of := handleQueryResume Throws st2\<rparr>, [params])
         else (c\<lparr>props_of := p', state_of := st2, inflight := inflight c @ [HQuery]\<rparr>, [params]))"

definition resume :: "handler \<Rightarrow> 'r reply \<Rightarrow> 'r state \<Rightarrow> 'r state" where
  "resume h r st =
     (case h of
        HQuery \<Rightarrow> handleQueryResume r st
      | HModeChange \<Rightarrow> fst (handleModeChangeResume r st)
      | HSortChange \<Rightarrow> fst (handleSortChangeResume r st))"

fun step :: "'r event \<Rightarrow> 'r config \<Rightarrow> 'r config \<times> jsobject list" where
  "step (QueryParamsChanged q throws) c = startQuery ((props_of c)\<lparr>queryParams := q\<rparr>) throws c"
| "step (TimeRangeChanged t throws) c = startQuery ((props_of c)\<lparr>timeRange := t\<rparr>) throws c"
| "step (ModeChange val throws) c =
     (case handleModeChangeBegin val (state_of c) of
        (st', False) \<Rightarrow> (c\<lparr>state_of := st'\<rparr>, [])
      | (st3, True) \<Rightarrow>
          (let params = getParams (props_of c) callgraphArgs
           in if throws
              then (c\<lparr>state_of := fst (handleModeChangeResume Throws st3)\<rparr>, [params])
              else (c\<lparr>state_of := st3, inflight := inflight c @ [HModeChange]\<rparr>, [params])))"
| "step (SortChange k throws) c =
     (let params = getParams (props_of c) (sortArgs k)
      in if throws
         then (c\<lparr>state_of := fst (handleSortChangeResume Throws (state_of c))\<rparr>, [params])
         else (c\<lparr>inflight := inflight c @ [HSortChange]\<rparr>, [params]))"
| "step (Settle i s) c =
     (if i < length (inflight c)
      then (c\<lparr>state_of := resume (inflight c ! i) (replyOf s) (state_of c),
              inflight := take i (inflight c) @ drop (Suc i) (inflight c)\<rparr>, [])
      else (c, []))"
| "step (TextDirectionChange d) c = (c\<lparr>state_of := handleTextDirectionChange d (state_of c)\<rparr>, [])"
| "step (KeywordChange k) c = (c\<lparr>state_of := onKeywordChange k (state_of c)\<rparr>, [])"
| "step (UpdateHighlightId i) c = (c\<lparr>state_of := onUpdateHighlightId i (state_of c)\<rparr>, [])"

text \<open>
  Running a list of events: the final configuration and, for each event in order, the
  requests it issued.
\<close>

fun runEvents :: "'r event list \<Rightarrow> 'r config \<Rightarrow> 'r config \<times> jsobject list list" where
  "runEvents [] c = (c, [])"
| "runEvents (e # es) c =
     (let (c', reqs) = step e c; (c'', rest) = runEvents es c' in (c'', reqs # rest))"

subsection \<open>The two watchers and the debounce timer\<close>

text \<open>
  \<^verbatim>\<open>
  watch([() => props.queryParams], debounce(16, async () => handleQuery()),
        { immediate: true, deep: true });
  watch(() => toolsFormData.value.timeRange, () => { handleQuery(); }, { deep: true });
  \<close>
  Time is counted in milliseconds. \<open>debounce(16, f)\<close> of the throttle-debounce package
  keeps one timer: a call cancels the pending timer and starts a new one that runs
  \<open>f\<close> 16 ms later. A trigger is a watcher callback being run at a given time (for the
  first watcher that includes the immediate run at mount). \<open>watchers\<close> takes the pending
  timer's deadline and the triggers in order of time, and returns the times at which
  \<open>handleQuery\<close> is called. A timer that is due at the time of a trigger has run before
  the trigger is handled.
\<close>

datatype trigger = QueryParamsWatch | TimeRangeWatch

definition debounceDelay :: nat where
  "debounceDelay = 16"

fun watchers :: "nat option \<Rightarrow> (nat \<times> trigger) list \<Rightarrow> nat list" where
  "watchers pending [] = (case pending of None \<Rightarrow> [] | Some due \<Rightarrow> [due])"
| "watchers pending ((t, tr) # rest) =
     (let (fired, pending') =
            (case pending of
               None \<Rightarrow> ([], None)
             | Some due \<Rightarrow> if due \<le> t then ([due], None) else ([], Some due))
      in fired @
         (case tr of
            QueryParamsWatch \<Rightarrow> watchers (Some (t + debounceDelay)) rest
          | TimeRangeWatch \<Rightarrow> t # watchers pending' rest))"

text \<open>
  A burst of triggers: each one comes less than the debounce delay after the one before.
\<close>

fun burst :: "nat list \<Rightarrow> bool" where
  "burst [] = True"
| "burst [t] = True"
| "burst (t # u # ts) = (t \<le> u \<and> u < t + debounceDelay \<and> burst (u # ts))"

section \<open>Basic facts about the embedding\<close>

subsection \<open>Literals and trimming\<close>

lemma of_char_lt_65536: "of_char c < (65536::nat)"
proof -
  have "(of_char c :: nat) mod 256 < 256" by simp
  then have "(of_char c :: nat) < 256" by (simp only: of_char_mod_256)
  then show ?thesis by (rule less_trans) simp
qed

lemma lit_inj: "lit a = lit b \<longleftrightarrow> a = b"
proof -
  have "inj (\<lambda>c::char. (of_nat (of_char c) :: 16 word))"
  proof (rule injI)
    fix x y :: char
    assume "(of_nat (of_char x) :: 16 word) = of_nat (of_char y)"
    then have "unat (of_nat (of_char x) :: 16 word) = unat (of_nat (of_char y) :: 16 word)"
      by simp
    moreover have "of_char x < (65536::nat)" "of_char y < (65536::nat)"
      by (rule of_char_lt_65536)+
    ultimately have "(of_char x :: nat) = of_char y" by (simp add: unat_of_nat)
    then show "x = y" by simp
  qed
  then show ?thesis unfolding lit_def by (simp add: inj_map_eq_map)
qed

lemma lit_Nil: "lit [] = []"
  by (simp add: lit_def)

lemma dropWhile_all_iff: "(\<forall>x \<in> set (dropWhile P xs). P x) \<longleftrightarrow> (\<forall>x \<in> set xs. P x)"
  by (induction xs) auto

lemma trim_Nil_iff: "trim s = [] \<longleftrightarrow> (\<forall>c \<in> set s. isWhiteSpace c)"
  by (simp add: trim_def trimStart_def trimEnd_def dropWhile_eq_Nil_conv dropWhile_all_iff)

subsection \<open>The parameter object, property by property\<close>


subsection \<open>Each handler by the reply it gets\<close>

lemma handleQuery_cases:
  "handleQuery p r st =
     \<lparr> post = (case r of
                Resolves (Some ds) \<Rightarrow>
                  st\<lparr>isLoading := False, highlightId := - 1, unit := orElseStr (unit_field ds) [],
                     tableData := orElseArr (table_data ds) [], flameData := flame_data ds,
                     empty_flag := False\<rparr>
              | _ \<Rightarrow> st\<lparr>isLoading := False, highlightId := - 1, empty_flag := True\<rparr>),
       sent = [getParams p queryArgs], raised = False \<rparr>"
  by (cases r; cases "case r of Resolves d \<Rightarrow> d | _ \<Rightarrow> None")
     (simp_all add: handleQuery_def handleQueryTry_def awaitQuery_def getDiagrams_def Let_def lit_Nil)

lemma handleSortChange_cases:
  "handleSortChange p k r st =
     \<lparr> post = (case r of
                Resolves (Some ds) \<Rightarrow> st\<lparr>highlightId := - 1, tableData := orElseArr (table_data ds) []\<rparr>
              | _ \<Rightarrow> st),
       sent = [getParams p (sortArgs k)],
       raised = (r = Throws \<or> r = ResolvesNullish) \<rparr>"
  by (cases r; cases "case r of Resolves d \<Rightarrow> d | _ \<Rightarrow> None")
     (simp_all add: handleSortChange_def awaitQuery_def getDiagrams_def Let_def)

lemma handleModeChange_same:
  "val = activeMode st \<Longrightarrow> handleModeChange p val r st = \<lparr> post = st, sent = [], raised = False \<rparr>"
  by (simp add: handleModeChange_def)

lemma handleModeChange_nofetch:
  "val \<noteq> activeMode st \<Longrightarrow> \<not> (val = Topo \<and> topoSrc st = []) \<Longrightarrow>
     handleModeChange p val r st =
       \<lparr> post = st\<lparr>highlightId := - 1, activeMode := val\<rparr>, sent = [], raised = False \<rparr>"
  by (cases "val = Topo") (simp_all add: handleModeChange_def Let_def)

lemma handleModeChange_fetch:
  "activeMode st \<noteq> Topo \<Longrightarrow> topoSrc st = [] \<Longrightarrow>
     handleModeChange p Topo r st =
       \<lparr> post = (case r of
                  Resolves (Some ds) \<Rightarrow>
                    st\<lparr>highlightId := - 1, activeMode := Topo,
                       topoSrc := orElseStr (call_graph_data ds) [], isLoading := False\<rparr>
                | Resolves None \<Rightarrow> st\<lparr>highlightId := - 1, activeMode := Topo, isLoading := False\<rparr>
                | Rejects \<Rightarrow> st\<lparr>highlightId := - 1, activeMode := Topo, isLoading := False\<rparr>
                | _ \<Rightarrow> st\<lparr>highlightId := - 1, activeMode := Topo, isLoading := True\<rparr>),
         sent = [getParams p callgraphArgs],
         raised = (r = Throws \<or> r = ResolvesNullish) \<rparr>"
  by (cases r; cases "case r of Resolves d \<Rightarrow> d | _ \<Rightarrow> None")
     (simp_all add: handleModeChange_def awaitQuery_def getDiagrams_def Let_def lit_Nil)

text \<open>
  Without a \<open>try\<close> around it, an exception in the Topo fetch of \<open>handleModeChange\<close> escapes
  and the loading flag stays set.
\<close>

lemma handleModeChange_exception:
  "activeMode st \<noteq> Topo \<Longrightarrow> topoSrc st = [] \<Longrightarrow> r = Throws \<or> r = ResolvesNullish \<Longrightarrow>
     isLoading (post (handleModeChange p Topo r st)) = True \<and>
     raised (handleModeChange p Topo r st) = True"
  by (auto simp: handleModeChange_fetch)

subsection \<open>The two phases make up the handlers\<close>

lemma handleQuery_phases:
  "handleQuery p r st =
     \<lparr> post = handleQueryResume r (handleQueryBegin st), sent = [getParams p queryArgs], raised = False \<rparr>"
  by (cases r; cases "case r of Resolves d \<Rightarrow> d | _ \<Rightarrow> None")
     (simp_all add: handleQuery_def handleQueryTry_def handleQueryResume_def handleQueryBegin_def
        awaitQuery_def getDiagrams_def Let_def)

lemma handleModeChange_phases:
  "handleModeChange p val r st =
     (case handleModeChangeBegin val st of
        (st', False) \<Rightarrow> \<lparr> post = st', sent = [], raised = False \<rparr>
      | (st3, True) \<Rightarrow>
          \<lparr> post = fst (handleModeChangeResume r st3), sent = [getParams p callgraphArgs],
            raised = snd (handleModeChangeResume r st3) \<rparr>)"
  by (simp add: handleModeChange_def handleModeChangeBegin_def handleModeChangeResume_def Let_def
        split: option.split)

lemma handleSortChange_phases:
  "handleSortChange p k r st =
     \<lparr> post = fst (handleSortChangeResume r st), sent = [getParams p (sortArgs k)],
       raised = snd (handleSortChangeResume r st) \<rparr>"
  by (simp add: handleSortChange_def handleSortChangeResume_def Let_def split: option.split)

subsection \<open>What each phase leaves alone\<close>








subsection \<open>Single events\<close>





subsection \<open>Runs of events with a cached topology source\<close>



text \<open>
  Why the last part of the run lemma asks that no Topo fetch be in flight: two Topo
  fetches that overlap. The first is answered with the graph \<open>g\<close>, the second with
  diagrams that hold no call graph, and the filled \<open>topoSrc\<close> is empty again.
\<close>

lemma overlapping_topo_fetches:
  "map (\<lambda>c. topoSrc (state_of c))
     [fst (runEvents
        [ModeChange Topo False, ModeChange Table False, ModeChange Topo False,
         Settle 0 (Answered (Some (Diagrams None None None (Some (lit ''g'')))))]
        \<lparr>props_of = \<lparr>queryParams = Map.empty, timeRange = (1, 2)\<rparr>,
         state_of = (initialState :: nat state), inflight = []\<rparr>),
      fst (runEvents
        [ModeChange Topo False, ModeChange Table False, ModeChange Topo False,
         Settle 0 (Answered (Some (Diagrams None None None (Some (lit ''g''))))),
         Settle 0 (Answered (Some (Diagrams None None None None)))]
        \<lparr>props_of = \<lparr>queryParams = Map.empty, timeRange = (1, 2)\<rparr>,
         state_of = (initialState :: nat state), inflight = []\<rparr>)]
   = [lit ''g'', []]"
  by (simp add: initialState_def resume_def replyOf_def
        handleModeChangeBegin_def handleModeChangeResume_def
        awaitQuery_def getDiagrams_def orElseStr_def Let_def lit_def)

subsection \<open>The watchers on bursts\<close>

lemma watchers_burst:
  "burst (t # ts) \<Longrightarrow> (case pending of None \<Rightarrow> True | Some due \<Rightarrow> t < due) \<Longrightarrow>
     watchers pending (map (\<lambda>t. (t, QueryParamsWatch)) (t # ts)) = [last (t # ts) + debounceDelay]"
proof (induction ts arbitrary: t pending)
  case Nil
  then show ?case by (simp split: option.splits)
next
  case (Cons u us)
  from Cons.prems(1) have b: "burst (u # us)" and lt: "u < t + debounceDelay" by simp_all
  have "watchers (Some (t + debounceDelay)) (map (\<lambda>t. (t, QueryParamsWatch)) (u # us))
          = [last (u # us) + debounceDelay]"
    by (rule Cons.IH [OF b]) (simp add: lt)
  moreover have "watchers pending (map (\<lambda>t. (t, QueryParamsWatch)) (t # u # us))
          = watchers (Some (t + debounceDelay)) (map (\<lambda>t. (t, QueryParamsWatch)) (u # us))"
    using Cons.prems(2) by (cases pending) simp_all
  ultimately show ?case by simp
qed

lemma watchers_timeRange:
  "watchers None (map (\<lambda>t. (t, TimeRangeWatch)) ts) = ts"
  by (induction ts) simp_all

section \<open>The claims\<close>

subsection \<open>Filter keywords\<close>

text \<open>
  Claim C1, as amended. \<open>flameFilterKeywords\<close> is the empty list when the keyword is empty
  or consists of white space only, and otherwise the one-element list holding the keyword
  itself, exactly as typed: trimming is used for the blank test only.
\<close>

theorem flameFilterKeywords_untrimmed:
  "((\<forall>c \<in> set k. isWhiteSpace c) \<longrightarrow> flameFilterKeywords k = []) \<and>
   ((\<exists>c \<in> set k. \<not> isWhiteSpace c) \<longrightarrow> flameFilterKeywords k = [k])"
  by (auto simp: flameFilterKeywords_def trim_Nil_iff)

theorem flameFilterKeywords_untrimmed_witness:
  "flameFilterKeywords (lit ''  '') = [] \<and> flameFilterKeywords (lit '' a '') = [lit '' a '']"
  using flameFilterKeywords_untrimmed [of "lit ''  ''"] flameFilterKeywords_untrimmed [of "lit '' a ''"]
  by (simp add: lit_def isWhiteSpace_def)

text \<open>
  C1 as written asks for \<open>[keyword.trim()]\<close>. For the keyword \<open>" a"\<close> the code yields
  \<open>[" a"]\<close>, while the trimmed keyword is \<open>"a"\<close>.
\<close>

theorem flameFilterKeywords_trimmed_counterexample:
  "flameFilterKeywords (lit '' a'') \<noteq> [trim (lit '' a'')]"
  by (simp add: flameFilterKeywords_def trim_def trimStart_def trimEnd_def lit_def isWhiteSpace_def)

subsection \<open>Request parameters\<close>

text \<open>
  Claim C2 says that the parameter object carries the service name and the app name as
  supplied in \<open>queryParams\<close>. Evaluated on \<open>queryParams = {service_name: 'x', app_name: 'y',
  profile_id: 'z'}\<close> and the time range \<open>[1, 2]\<close>: the two names come out as the constants
  written below the source's \<open>TODO\<close> comment, whereas \<open>profile_id\<close> is passed on and
  \<open>start\<close>, \<open>end\<close> are the bounds times \<open>10^6\<close>.
\<close>

theorem getParams_overrides_names:
  "getParams \<lparr>queryParams = [lit ''service_name'' \<mapsto> Str (lit ''x''), lit ''app_name'' \<mapsto> Str (lit ''y''),
                             lit ''profile_id'' \<mapsto> Str (lit ''z'')],
              timeRange = (1, 2)\<rparr> Map.empty (lit ''service_name'') = Some (Str (lit ''fuxi_gin'')) \<and>
   getParams \<lparr>queryParams = [lit ''service_name'' \<mapsto> Str (lit ''x''), lit ''app_name'' \<mapsto> Str (lit ''y''),
                             lit ''profile_id'' \<mapsto> Str (lit ''z'')],
              timeRange = (1, 2)\<rparr> Map.empty (lit ''app_name'') = Some (Str (lit ''profiling_bar'')) \<and>
   getParams \<lparr>queryParams = [lit ''service_name'' \<mapsto> Str (lit ''x''), lit ''app_name'' \<mapsto> Str (lit ''y''),
                             lit ''profile_id'' \<mapsto> Str (lit ''z'')],
              timeRange = (1, 2)\<rparr> Map.empty (lit ''profile_id'') = Some (Str (lit ''z'')) \<and>
   getParams \<lparr>queryParams = [lit ''service_name'' \<mapsto> Str (lit ''x''), lit ''app_name'' \<mapsto> Str (lit ''y''),
                             lit ''profile_id'' \<mapsto> Str (lit ''z'')],
              timeRange = (1, 2)\<rparr> Map.empty (lit ''start'') = Some (Num 1000000) \<and>
   getParams \<lparr>queryParams = [lit ''service_name'' \<mapsto> Str (lit ''x''), lit ''app_name'' \<mapsto> Str (lit ''y''),
                             lit ''profile_id'' \<mapsto> Str (lit ''z'')],
              timeRange = (1, 2)\<rparr> Map.empty (lit ''end'') = Some (Num 2000000) \<and>
   Str (lit ''fuxi_gin'') \<noteq> Str (lit ''x'') \<and> Str (lit ''profiling_bar'') \<noteq> Str (lit ''y'')"
  by (simp add: getParams_def lit_inj)

subsection \<open>Independent fetches and the cached topology\<close>




subsection \<open>The table/flame fetch\<close>

text \<open>
  Claim C4. Whatever the backend call does (a response with diagrams, a response without,
  a rejected promise, an exception inside the \<open>try\<close> block), \<open>isLoading\<close> is false when
  \<open>handleQuery\<close> completes, and no exception escapes it.
\<close>

theorem handleQuery_clears_isLoading:
  "isLoading (post (handleQuery p r st)) = False \<and> raised (handleQuery p r st) = False"
  by (simp add: handleQuery_cases split: reply.split option.split)

text \<open>
  Claim C5. When the fetch fails (rejected promise, or an exception) or the response has
  no \<open>diagrams\<close> field, \<open>handleQuery\<close> sets \<open>empty\<close>, leaves \<open>tableData\<close>, \<open>flameData\<close> and
  \<open>unit\<close> as they were, and ends with \<open>isLoading\<close> false.
\<close>

theorem handleQuery_no_data:
  "r = Rejects \<or> r = Resolves None \<or> r = Throws \<or> r = ResolvesNullish \<Longrightarrow>
     empty_flag (post (handleQuery p r st)) = True \<and>
     tableData (post (handleQuery p r st)) = tableData st \<and>
     flameData (post (handleQuery p r st)) = flameData st \<and>
     unit (post (handleQuery p r st)) = unit st \<and>
     isLoading (post (handleQuery p r st)) = False"
  by (auto simp: handleQuery_cases)

theorem handleQuery_no_data_witness:
  "empty_flag (post (handleQuery \<lparr>queryParams = Map.empty, timeRange = (1, 2)\<rparr> (Resolves None)
      ((initialState :: nat state)\<lparr>empty_flag := False, tableData := [7], unit := lit ''ms''\<rparr>))) = True \<and>
   tableData (post (handleQuery \<lparr>queryParams = Map.empty, timeRange = (1, 2)\<rparr> (Resolves None)
      ((initialState :: nat state)\<lparr>empty_flag := False, tableData := [7], unit := lit ''ms''\<rparr>))) = [7] \<and>
   unit (post (handleQuery \<lparr>queryParams = Map.empty, timeRange = (1, 2)\<rparr> (Resolves None)
      ((initialState :: nat state)\<lparr>empty_flag := False, tableData := [7], unit := lit ''ms''\<rparr>))) = lit ''ms'' \<and>
   isLoading (post (handleQuery \<lparr>queryParams = Map.empty, timeRange = (1, 2)\<rparr> (Resolves None)
      ((initialState :: nat state)\<lparr>empty_flag := False, tableData := [7], unit := lit ''ms''\<rparr>))) = False"
  using handleQuery_no_data [of "Resolves None" "\<lparr>queryParams = Map.empty, timeRange = (1, 2)\<rparr>"
      "(initialState :: nat state)\<lparr>empty_flag := False, tableData := [7], unit := lit ''ms''\<rparr>"]
  by simp

subsection \<open>Sorting\<close>

text \<open>
  Claim C6 says that a failing sort request leaves the rows as they are and raises no
  error. Evaluated on the rows \<open>[1, 2]\<close>, the sort key \<open>self\<close> and a request that
  resolves to \<open>null\<close>, and again with a call of \<open>query\<close> that throws: the rows stay, but
  the TypeError, respectively the exception of the call, escapes \<open>handleSortChange\<close>,
  which has no \<open>try\<close> block. On the same two replies \<open>handleQuery\<close>, which wraps the same
  sequence in \<open>try\<close>/\<open>catch\<close>, raises nothing.
\<close>

theorem handleSortChange_raises:
  "raised (handleSortChange \<lparr>queryParams = Map.empty, timeRange = (1, 2)\<rparr> (lit ''self'')
      ResolvesNullish ((initialState :: nat state)\<lparr>tableData := [1, 2]\<rparr>)) = True \<and>
   raised (handleSortChange \<lparr>queryParams = Map.empty, timeRange = (1, 2)\<rparr> (lit ''self'')
      Throws ((initialState :: nat state)\<lparr>tableData := [1, 2]\<rparr>)) = True \<and>
   tableData (post (handleSortChange \<lparr>queryParams = Map.empty, timeRange = (1, 2)\<rparr> (lit ''self'')
      ResolvesNullish ((initialState :: nat state)\<lparr>tableData := [1, 2]\<rparr>))) = [1, 2] \<and>
   raised (handleQuery \<lparr>queryParams = Map.empty, timeRange = (1, 2)\<rparr>
      ResolvesNullish ((initialState :: nat state)\<lparr>tableData := [1, 2]\<rparr>)) = False \<and>
   raised (handleQuery \<lparr>queryParams = Map.empty, timeRange = (1, 2)\<rparr>
      Throws ((initialState :: nat state)\<lparr>tableData := [1, 2]\<rparr>)) = False"
  by (simp add: handleSortChange_def handleQuery_def handleQueryTry_def awaitQuery_def
        getDiagrams_def Let_def)

text \<open>
  Claim C9. On every path (response with diagrams, without, rejected request, exception)
  \<open>handleSortChange\<close> leaves \<open>isLoading\<close>, \<open>empty\<close>, \<open>flameData\<close>, \<open>unit\<close>, \<open>topoSrc\<close> and
  \<open>activeMode\<close> as they were.
\<close>

theorem handleSortChange_frame:
  "isLoading (post (handleSortChange p k r st)) = isLoading st \<and>
   empty_flag (post (handleSortChange p k r st)) = empty_flag st \<and>
   flameData (post (handleSortChange p k r st)) = flameData st \<and>
   unit (post (handleSortChange p k r st)) = unit st \<and>
   topoSrc (post (handleSortChange p k r st)) = topoSrc st \<and>
   activeMode (post (handleSortChange p k r st)) = activeMode st"
  by (simp add: handleSortChange_cases split: reply.split option.split)

subsection \<open>Switching the view mode\<close>

text \<open>
  Claim C7 says that the Topo fetch of \<open>handleModeChange\<close> sets the loading flag and
  clears it again. Evaluated on the initial state (mode Combine, \<open>topoSrc\<close> empty), a
  switch to Topo and a request that resolves to \<open>null\<close>, and again with a call of \<open>query\<close>
  that throws: the flag is set, the exception escapes the handler, which has no \<open>try\<close>
  block, and \<open>isLoading\<close> stays true. On the same two replies \<open>handleQuery\<close>, which wraps
  the same sequence in \<open>try\<close>/\<open>catch\<close>, ends with \<open>isLoading\<close> false and raises nothing.
\<close>

theorem handleModeChange_loading_stuck:
  "isLoading (initialState :: nat state) = False \<and>
   isLoading (post (handleModeChange \<lparr>queryParams = Map.empty, timeRange = (1, 2)\<rparr> Topo
      ResolvesNullish (initialState :: nat state))) = True \<and>
   raised (handleModeChange \<lparr>queryParams = Map.empty, timeRange = (1, 2)\<rparr> Topo
      ResolvesNullish (initialState :: nat state)) = True \<and>
   isLoading (post (handleModeChange \<lparr>queryParams = Map.empty, timeRange = (1, 2)\<rparr> Topo
      Throws (initialState :: nat state))) = True \<and>
   raised (handleModeChange \<lparr>queryParams = Map.empty, timeRange = (1, 2)\<rparr> Topo
      Throws (initialState :: nat state)) = True \<and>
   isLoading (post (handleQuery \<lparr>queryParams = Map.empty, timeRange = (1, 2)\<rparr>
      ResolvesNullish (initialState :: nat state))) = False \<and>
   raised (handleQuery \<lparr>queryParams = Map.empty, timeRange = (1, 2)\<rparr>
      ResolvesNullish (initialState :: nat state)) = False \<and>
   isLoading (post (handleQuery \<lparr>queryParams = Map.empty, timeRange = (1, 2)\<rparr>
      Throws (initialState :: nat state))) = False \<and>
   raised (handleQuery \<lparr>queryParams = Map.empty, timeRange = (1, 2)\<rparr>
      Throws (initialState :: nat state)) = False"
  by (simp add: initialState_def handleModeChange_def handleQuery_def handleQueryTry_def
        awaitQuery_def getDiagrams_def Let_def lit_def)

subsection \<open>Debouncing\<close>

text \<open>
  Claim C8, as amended. Only the watcher of \<open>queryParams\<close> is debounced: a burst of its
  triggers, each less than 16 ms after the one before, leads to exactly one call of
  \<open>handleQuery\<close>, 16 ms after the last of them. The watcher of the time range calls
  \<open>handleQuery\<close> at once, so every change of the time range is a fetch of its own.
\<close>

theorem debounce_only_queryParams:
  "(burst (t # ts) \<longrightarrow>
      watchers None (map (\<lambda>t. (t, QueryParamsWatch)) (t # ts)) = [last (t # ts) + 16]) \<and>
   watchers None (map (\<lambda>t. (t, TimeRangeWatch)) us) = us"
  using watchers_burst [of t ts None]
  by (simp add: watchers_timeRange debounceDelay_def)

theorem debounce_only_queryParams_witness:
  "burst [0, 5, 10] \<and>
   watchers None [(0, QueryParamsWatch), (5, QueryParamsWatch), (10, QueryParamsWatch)] = [26] \<and>
   watchers None [(3, TimeRangeWatch), (7, TimeRangeWatch)] = [3, 7]"
  using debounce_only_queryParams [of 0 "[5, 10]" "[3, 7]"]
  by (simp add: debounceDelay_def)

text \<open>
  C8 as written has changes of the time range collapse too. Two of them, 5 ms apart, are
  two calls of \<open>handleQuery\<close>, at 0 ms and at 5 ms.
\<close>

theorem timeRange_debounce_counterexample:
  "watchers None [(0, TimeRangeWatch), (5, TimeRangeWatch)] = [0, 5] \<and>
   length (watchers None [(0, TimeRangeWatch), (5, TimeRangeWatch)]) \<noteq> 1"
  by simp

subsection \<open>charColor\<close>

text \<open>
  Claim C10. For a string with at least one character, \<open>charColor\<close> is
  \<open>hsl(h, 50%, 50%)\<close> with \<open>h\<close> the code of the first character modulo 360, so
  \<open>0 \<le> h < 360\<close>; any other non-empty string with the same first character gets the
  same colour.
\<close>

theorem charColor_hsl:
  "str \<noteq> [] \<longrightarrow>
     (let h = unat (hd str) mod 360 in
        charColor str = lit ''hsl('' @ decimal h @ lit '', 50%, 50%)'' \<and> h < 360 \<and>
        (\<forall>str'. str' \<noteq> [] \<and> hd str' = hd str \<longrightarrow> charColor str' = charColor str))"
  by (auto simp: charColor_def remainder_def charCodeAt_def toString_def lit_def hd_conv_nth Let_def)

theorem charColor_hsl_witness:
  "lit ''abc'' \<noteq> [] \<and> charColor (lit ''abc'') = lit ''hsl(97, 50%, 50%)'' \<and>
   charColor (lit ''a'') = charColor (lit ''abc'')"
  using charColor_hsl [of "lit ''abc''"]
  by (simp add: lit_def decimal.simps digit_def Let_def)

end
